theory Spec2Isabelle
  imports Complex_Main "HOL-Library.Sublist"
begin

section \<open>The NER notebook \<open>ner_wikigold_transformer.ipynb\<close>\<close>

text \<open>
  The notebook is a sequence of code cells run top to bottom in one kernel. Its own logic
  is assignment of configuration constants, calls into external libraries, and the parsing
  of a text report. The model keeps the kernel's global namespace, the sequence of calls
  made to the outside, the state of the outside world, and the pending exception, if any.
\<close>

subsection \<open>Python values\<close>

datatype exn =
  IndexError | ValueError | NameError | TypeError | AttributeError | KeyError
  | ExternalError string

text \<open>
  A float is modelled by the number its literal denotes, or one of the three special
  values; rounding to binary64 is not modelled. Strings are lists of code points below 256.
  A dict is the list of its items, with string keys. \<open>PyObj\<close> is an opaque object of an
  external library (a data loader, a model, an array).
\<close>

datatype pyfloat = Finite rat | PosInf | NegInf | NaN

datatype pyval =
  PyNone
  | PyBool bool
  | PyInt int
  | PyFloat pyfloat
  | PyStr string
  | PyTuple "pyval list"
  | PyList "pyval list"
  | PyDict "(string \<times> pyval) list"
  | PyObj string

text \<open>The number a numeric value denotes; Python's \<open>==\<close> compares numbers by it, so
  \<open>1 == 1.0\<close>.\<close>

fun num_of :: "pyval \<Rightarrow> rat option" where
  "num_of (PyInt i) = Some (of_int i)"
| "num_of (PyBool b) = Some (if b then 1 else 0)"
| "num_of (PyFloat (Finite r)) = Some r"
| "num_of _ = None"

text \<open>Truth value testing, as \<open>if x:\<close> does it.\<close>

fun py_truthy :: "pyval \<Rightarrow> bool" where
  "py_truthy PyNone = False"
| "py_truthy (PyBool b) = b"
| "py_truthy (PyInt i) = (i \<noteq> 0)"
| "py_truthy (PyFloat (Finite r)) = (r \<noteq> 0)"
| "py_truthy (PyFloat _) = True"
| "py_truthy (PyStr s) = (s \<noteq> [])"
| "py_truthy (PyTuple vs) = (vs \<noteq> [])"
| "py_truthy (PyList vs) = (vs \<noteq> [])"
| "py_truthy (PyDict kvs) = (kvs \<noteq> [])"
| "py_truthy (PyObj _) = True"

text \<open>\<open>len(x)\<close>.\<close>

fun py_len :: "pyval \<Rightarrow> exn + pyval" where
  "py_len (PyStr s) = Inr (PyInt (int (length s)))"
| "py_len (PyTuple vs) = Inr (PyInt (int (length vs)))"
| "py_len (PyList vs) = Inr (PyInt (int (length vs)))"
| "py_len (PyDict kvs) = Inr (PyInt (int (length kvs)))"
| "py_len _ = Inl TypeError"

text \<open>The items an iterable yields, as the unpacking of an assignment target needs them.\<close>

fun py_iter :: "pyval \<Rightarrow> exn + pyval list" where
  "py_iter (PyTuple vs) = Inr vs"
| "py_iter (PyList vs) = Inr vs"
| "py_iter (PyStr s) = Inr (map (\<lambda>c. PyStr [c]) s)"
| "py_iter (PyDict kvs) = Inr (map (\<lambda>kv. PyStr (fst kv)) kvs)"
| "py_iter _ = Inl TypeError"

text \<open>\<open>xs[i]\<close> on a sequence: a negative index counts from the end, an index out of range
  raises \<open>IndexError\<close>.\<close>

definition seq_index :: "'a list \<Rightarrow> int \<Rightarrow> exn + 'a" where
  "seq_index xs i =
     (if 0 \<le> i \<and> nat i < length xs then Inr (xs ! nat i)
      else if i < 0 \<and> nat (- i) \<le> length xs then Inr (xs ! (length xs - nat (- i)))
      else Inl IndexError)"

fun py_index :: "int \<Rightarrow> pyval \<Rightarrow> exn + pyval" where
  "py_index i (PyList vs) = seq_index vs i"
| "py_index i (PyTuple vs) = seq_index vs i"
| "py_index i (PyStr s) = (case seq_index s i of Inl e \<Rightarrow> Inl e | Inr c \<Rightarrow> Inr (PyStr [c]))"
| "py_index i (PyDict kvs) = Inl KeyError"
| "py_index i _ = Inl TypeError"

subsection \<open>\<open>str.split\<close>\<close>

text \<open>\<open>s.split(sep)\<close> for a one-character separator: every occurrence of the separator
  ends a piece, so the result has one more piece than there are separators.\<close>

fun split_on :: "char \<Rightarrow> string \<Rightarrow> string list" where
  "split_on sep [] = [[]]"
| "split_on sep (c # cs) =
     (if c = sep then [] # split_on sep cs
      else (case split_on sep cs of [] \<Rightarrow> [[c]] | p # ps \<Rightarrow> (c # p) # ps))"

text \<open>\<open>str.isspace\<close> on the code points below 256.\<close>

definition py_isspace :: "char \<Rightarrow> bool" where
  "py_isspace c \<longleftrightarrow>
     c \<in> set [CHR 0x09, CHR 0x0A, CHR 0x0B, CHR 0x0C, CHR 0x0D, CHR 0x1C, CHR 0x1D,
              CHR 0x1E, CHR 0x1F, CHR 0x20, CHR 0x85, CHR 0xA0]"

text \<open>\<open>s.split()\<close>: the maximal runs of non-whitespace characters, in order; \<open>cur\<close> is the
  run being read.\<close>

fun fields :: "string \<Rightarrow> string \<Rightarrow> string list" where
  "fields cur [] = (if cur = [] then [] else [cur])"
| "fields cur (c # cs) =
     (if py_isspace c then (if cur = [] then fields [] cs else cur # fields [] cs)
      else fields (cur @ [c]) cs)"

definition split_ws :: "string \<Rightarrow> string list" where
  "split_ws s = fields [] s"

definition newline :: char where
  "newline = CHR 0x0A"

text \<open>The two methods on a value: anything but a string has no \<open>split\<close>.\<close>

fun py_split_on :: "char \<Rightarrow> pyval \<Rightarrow> exn + pyval" where
  "py_split_on sep (PyStr s) = Inr (PyList (map PyStr (split_on sep s)))"
| "py_split_on sep _ = Inl AttributeError"

fun py_split_ws :: "pyval \<Rightarrow> exn + pyval" where
  "py_split_ws (PyStr s) = Inr (PyList (map PyStr (split_ws s)))"
| "py_split_ws _ = Inl AttributeError"

subsection \<open>The outside world\<close>

text \<open>
  Everything the notebook calls but does not define: the temporary-directory factory,
  \<open>torch\<close>, the dataset loader, the model wrapper and the report formatter. A call takes
  the evaluated arguments and the state of the world and returns a value or raises, and
  leaves a new state of the world.
\<close>

datatype callee =
  TemporaryDirectory | manual_seed | cuda_is_available | load_dataset | TokenClassifier
  | fit | predict | get_true_test_labels | get_predicted_token_labels
  | classification_report | print | glue

datatype 'e arg = Recv 'e | Pos 'e | Kw string 'e

record event =
  callee :: callee
  args :: "pyval arg list"
  ret :: "exn + pyval"

text \<open>
  \<open>ext_call\<close> is the behaviour of the libraries. \<open>ext_float\<close> is the builtin \<open>float\<close> on a
  string, \<open>None\<close> where it raises \<open>ValueError\<close>. \<open>ext_elapsed\<close> is the number of seconds the
  last timed block took.
\<close>

record 'w ext =
  ext_call :: "callee \<Rightarrow> pyval arg list \<Rightarrow> 'w \<Rightarrow> (exn + pyval) \<times> 'w"
  ext_float :: "string \<Rightarrow> pyfloat option"
  ext_elapsed :: "'w \<Rightarrow> rat"

text \<open>The names the notebook binds in the kernel's global namespace.\<close>

datatype name =
  QUICK_RUN | TEST_DATA_FRACTION | TRAIN_SAMPLE_RATIO | TEST_SAMPLE_RATIO | NUM_TRAIN_EPOCHS
  | DATA_PATH | CACHE_DIR | RANDOM_SEED | MODEL_NAME | DO_LOWER_CASE | MAX_SEQ_LENGTH
  | TRAILING_PIECE_TAG | DEVICE | BATCH_SIZE
  | train_dataloader | test_dataloader | label_map | test_dataset | model | t | preds
  | true_labels | predicted_labels | report | report_splits

record 'w state =
  globals :: "name \<rightharpoonup> pyval"
  trace :: "event list"
  world :: 'w
  exc :: "exn option"

subsection \<open>Expressions\<close>

type_synonym expr = "(name \<rightharpoonup> pyval) \<Rightarrow> exn + pyval"

definition lit :: "pyval \<Rightarrow> expr" where
  "lit v = (\<lambda>g. Inr v)"

definition var :: "name \<Rightarrow> expr" where
  "var x = (\<lambda>g. case g x of None \<Rightarrow> Inl NameError | Some v \<Rightarrow> Inr v)"

text \<open>A builtin or method applied to the value of an expression.\<close>

definition app :: "(pyval \<Rightarrow> exn + pyval) \<Rightarrow> expr \<Rightarrow> expr" where
  "app f e = (\<lambda>g. case e g of Inl x \<Rightarrow> Inl x | Inr v \<Rightarrow> f v)"

text \<open>\<open>float(x)\<close>.\<close>

fun py_float :: "'w ext \<Rightarrow> pyval \<Rightarrow> exn + pyval" where
  "py_float X (PyStr s) =
     (case ext_float X s of None \<Rightarrow> Inl ValueError | Some f \<Rightarrow> Inr (PyFloat f))"
| "py_float X (PyFloat f) = Inr (PyFloat f)"
| "py_float X (PyInt i) = Inr (PyFloat (Finite (of_int i)))"
| "py_float X (PyBool b) = Inr (PyFloat (Finite (if b then 1 else 0)))"
| "py_float X _ = Inl TypeError"

text \<open>Arguments are evaluated left to right; the first one that raises ends the
  evaluation.\<close>

fun arg_expr :: "'e arg \<Rightarrow> 'e" where
  "arg_expr (Recv e) = e"
| "arg_expr (Pos e) = e"
| "arg_expr (Kw k e) = e"

fun arg_with :: "'e arg \<Rightarrow> 'v \<Rightarrow> 'v arg" where
  "arg_with (Recv e) v = Recv v"
| "arg_with (Pos e) v = Pos v"
| "arg_with (Kw k e) v = Kw k v"

fun eval_args :: "expr arg list \<Rightarrow> (name \<rightharpoonup> pyval) \<Rightarrow> exn + pyval arg list" where
  "eval_args [] g = Inr []"
| "eval_args (a # as) g =
     (case arg_expr a g of
        Inl x \<Rightarrow> Inl x
      | Inr v \<Rightarrow> (case eval_args as g of Inl x \<Rightarrow> Inl x | Inr vs \<Rightarrow> Inr (arg_with a v # vs)))"

subsection \<open>Statements\<close>

definition raise :: "exn \<Rightarrow> 'w state \<Rightarrow> 'w state" where
  "raise x s = s\<lparr>exc := Some x\<rparr>"

definition bind_name :: "name \<Rightarrow> pyval \<Rightarrow> 'w state \<Rightarrow> 'w state" where
  "bind_name x v s = s\<lparr>globals := (globals s)(x \<mapsto> v)\<rparr>"

text \<open>\<open>x = e\<close>.\<close>

definition assign :: "name \<Rightarrow> expr \<Rightarrow> 'w state \<Rightarrow> 'w state" where
  "assign x e s = (case e (globals s) of Inl err \<Rightarrow> raise err s | Inr v \<Rightarrow> bind_name x v s)"

text \<open>\<open>a, b, c, d = v\<close>: nothing is bound unless the value yields as many items as there
  are targets.\<close>

definition unpack :: "name list \<Rightarrow> pyval \<Rightarrow> 'w state \<Rightarrow> 'w state" where
  "unpack xs v s =
     (case py_iter v of
        Inl err \<Rightarrow> raise err s
      | Inr vs \<Rightarrow>
          if length vs = length xs then fold (\<lambda>(x, u). bind_name x u) (zip xs vs) s
          else raise ValueError s)"

text \<open>A call to the outside: the arguments are evaluated, the call is recorded with its
  outcome, an exception becomes pending, a result is handed to what follows.\<close>

definition call ::
  "'w ext \<Rightarrow> callee \<Rightarrow> expr arg list \<Rightarrow> (pyval \<Rightarrow> 'w state \<Rightarrow> 'w state) \<Rightarrow> 'w state \<Rightarrow> 'w state"
where
  "call X f as k s =
     (case eval_args as (globals s) of
        Inl err \<Rightarrow> raise err s
      | Inr vs \<Rightarrow>
          (case ext_call X f vs (world s) of
             (r, w') \<Rightarrow>
               let s' = s\<lparr>trace := trace s @ [\<lparr>callee = f, args = vs, ret = r\<rparr>], world := w'\<rparr>
               in (case r of Inl err \<Rightarrow> raise err s' | Inr v \<Rightarrow> k v s')))"

definition discard :: "pyval \<Rightarrow> 'w state \<Rightarrow> 'w state" where
  "discard v s = s"

text \<open>\<open>print\<close> and \<open>sb.glue\<close> are output sinks: the call is recorded and returns \<open>None\<close>.\<close>

definition sink :: "callee \<Rightarrow> expr arg list \<Rightarrow> 'w state \<Rightarrow> 'w state" where
  "sink f as s =
     (case eval_args as (globals s) of
        Inl err \<Rightarrow> raise err s
      | Inr vs \<Rightarrow> s\<lparr>trace := trace s @ [\<lparr>callee = f, args = vs, ret = Inr PyNone\<rparr>]\<rparr>)"

text \<open>A sequence of statements: a statement runs only while no exception is pending.\<close>

definition step :: "('w state \<Rightarrow> 'w state) \<Rightarrow> 'w state \<Rightarrow> 'w state" where
  "step c s = (if exc s = None then c s else s)"

definition block :: "('w state \<Rightarrow> 'w state) list \<Rightarrow> 'w state \<Rightarrow> 'w state" where
  "block cs s = fold step cs s"

text \<open>\<open>if e: ... else: ...\<close>.\<close>

definition if_stmt ::
  "expr \<Rightarrow> ('w state \<Rightarrow> 'w state) list \<Rightarrow> ('w state \<Rightarrow> 'w state) list \<Rightarrow> 'w state \<Rightarrow> 'w state"
where
  "if_stmt e cs ds s =
     (case e (globals s) of
        Inl err \<Rightarrow> raise err s
      | Inr v \<Rightarrow> if py_truthy v then block cs s else block ds s)"

text \<open>Modelled from the spec: \<open>utils_nlp.common.timer.Timer\<close>, a class of the repository
  that the notebook imports and that is not part of the notebook. The timer is a stopwatch
  around the block: \<open>with Timer() as t\<close> binds \<open>t\<close> and runs the block; leaving the block
  stops the watch and leaves a pending exception pending, since no failure is recovered
  from. The seconds it measured are \<open>ext_elapsed\<close> of the world.\<close>

definition with_Timer :: "name \<Rightarrow> ('w state \<Rightarrow> 'w state) list \<Rightarrow> 'w state \<Rightarrow> 'w state" where
  "with_Timer x cs s = block cs (bind_name x (PyObj ''Timer'') s)"

text \<open>\<open>print(template.format(t.interval / 3600))\<close>: the event keeps the template and the
  number of hours rather than the rendered text.\<close>

definition print_hours :: "'w ext \<Rightarrow> string \<Rightarrow> name \<Rightarrow> 'w state \<Rightarrow> 'w state" where
  "print_hours X template x s =
     (case globals s x of
        None \<Rightarrow> raise NameError s
      | Some _ \<Rightarrow>
          sink print
            [Pos (lit (PyStr template)),
             Pos (lit (PyFloat (Finite (ext_elapsed X (world s) / 3600))))] s)"

subsection \<open>The cells\<close>

text \<open>The first code cell sets the flag; the notebook ships with \<open>False\<close>.\<close>

definition quick_run_cell :: "bool \<Rightarrow> 'w state \<Rightarrow> 'w state" where
  "quick_run_cell q = block [assign QUICK_RUN (lit (PyBool q))]"

text \<open>The imports bind module names only.\<close>

definition imports_cell :: "'w state \<Rightarrow> 'w state" where
  "imports_cell = block []"

definition configuration_cell :: "'w ext \<Rightarrow> 'w state \<Rightarrow> 'w state" where
  "configuration_cell X = block
     [assign TEST_DATA_FRACTION (lit (PyFloat (Finite (3 / 10)))),
      assign TRAIN_SAMPLE_RATIO (lit (PyInt 1)),
      assign TEST_SAMPLE_RATIO (lit (PyInt 1)),
      assign NUM_TRAIN_EPOCHS (lit (PyInt 5)),
      if_stmt (var QUICK_RUN)
        [assign TRAIN_SAMPLE_RATIO (lit (PyFloat (Finite (1 / 10)))),
         assign TEST_SAMPLE_RATIO (lit (PyFloat (Finite (1 / 10)))),
         assign NUM_TRAIN_EPOCHS (lit (PyInt 1))]
        [],
      call X TemporaryDirectory [] (bind_name DATA_PATH),
      call X TemporaryDirectory [] (bind_name CACHE_DIR),
      assign RANDOM_SEED (lit (PyInt 100)),
      call X manual_seed [Pos (var RANDOM_SEED)] discard,
      assign MODEL_NAME (lit (PyStr ''bert-base-cased'')),
      assign DO_LOWER_CASE (lit (PyBool False)),
      assign MAX_SEQ_LENGTH (lit (PyInt 200)),
      assign TRAILING_PIECE_TAG (lit (PyStr ''X'')),
      assign DEVICE (lit (PyStr ''cuda'')),
      call X cuda_is_available []
        (\<lambda>v. if py_truthy v then assign BATCH_SIZE (lit (PyInt 16))
             else assign BATCH_SIZE (lit (PyInt 8)))]"

definition load_cell :: "'w ext \<Rightarrow> 'w state \<Rightarrow> 'w state" where
  "load_cell X = block
     [call X load_dataset
        [Kw ''local_path'' (var DATA_PATH),
         Kw ''test_fraction'' (var TEST_DATA_FRACTION),
         Kw ''random_seed'' (var RANDOM_SEED),
         Kw ''train_sample_ratio'' (var TRAIN_SAMPLE_RATIO),
         Kw ''test_sample_ratio'' (var TEST_SAMPLE_RATIO),
         Kw ''model_name'' (var MODEL_NAME),
         Kw ''to_lower'' (var DO_LOWER_CASE),
         Kw ''cache_dir'' (var CACHE_DIR),
         Kw ''max_len'' (var MAX_SEQ_LENGTH),
         Kw ''trailing_piece_tag'' (var TRAILING_PIECE_TAG),
         Kw ''batch_size'' (var BATCH_SIZE),
         Kw ''num_gpus'' (lit PyNone)]
        (unpack [train_dataloader, test_dataloader, label_map, test_dataset])]"

definition train_cell :: "'w ext \<Rightarrow> 'w state \<Rightarrow> 'w state" where
  "train_cell X = block
     [call X TokenClassifier
        [Kw ''model_name'' (var MODEL_NAME),
         Kw ''num_labels'' (app py_len (var label_map)),
         Kw ''cache_dir'' (var CACHE_DIR)]
        (bind_name model),
      with_Timer t
        [call X fit
           [Recv (var model),
            Kw ''train_dataloader'' (var train_dataloader),
            Kw ''num_epochs'' (var NUM_TRAIN_EPOCHS),
            Kw ''num_gpus'' (lit PyNone),
            Kw ''local_rank'' (lit (PyInt (- 1))),
            Kw ''weight_decay'' (lit (PyFloat (Finite 0))),
            Kw ''learning_rate'' (lit (PyFloat (Finite (5 / 100000)))),
            Kw ''adam_epsilon'' (lit (PyFloat (Finite (1 / 100000000)))),
            Kw ''warmup_steps'' (lit (PyInt 0)),
            Kw ''verbose'' (lit (PyBool True)),
            Kw ''seed'' (var RANDOM_SEED)]
           discard],
      print_hours X ''Training time : {:.3f} hrs'' t]"

definition predict_cell :: "'w ext \<Rightarrow> 'w state \<Rightarrow> 'w state" where
  "predict_cell X = block
     [with_Timer t
        [call X predict
           [Recv (var model),
            Kw ''test_dataloader'' (var test_dataloader),
            Kw ''num_gpus'' (lit PyNone),
            Kw ''verbose'' (lit (PyBool True))]
           (bind_name preds)],
      print_hours X ''Prediction time : {:.3f} hrs'' t]"

definition true_labels_cell :: "'w ext \<Rightarrow> 'w state \<Rightarrow> 'w state" where
  "true_labels_cell X = block
     [call X get_true_test_labels
        [Recv (var model),
         Kw ''label_map'' (var label_map),
         Kw ''dataset'' (var test_dataset)]
        (bind_name true_labels)]"

definition report_cell :: "'w ext \<Rightarrow> 'w state \<Rightarrow> 'w state" where
  "report_cell X = block
     [call X get_predicted_token_labels
        [Recv (var model),
         Kw ''predictions'' (var preds),
         Kw ''label_map'' (var label_map),
         Kw ''dataset'' (var test_dataset)]
        (bind_name predicted_labels),
      call X classification_report
        [Pos (var true_labels),
         Pos (var predicted_labels),
         Kw ''digits'' (lit (PyInt 2))]
        (bind_name report),
      sink print [Pos (var report)]]"

definition metrics_cell :: "'w ext \<Rightarrow> 'w state \<Rightarrow> 'w state" where
  "metrics_cell X = block
     [assign report_splits
        (app py_split_ws (app (py_index (- 2)) (app (py_split_on newline) (var report)))),
      sink glue
        [Pos (lit (PyStr ''precision'')),
         Pos (app (py_float X) (app (py_index 2) (var report_splits)))],
      sink glue
        [Pos (lit (PyStr ''recall'')),
         Pos (app (py_float X) (app (py_index 3) (var report_splits)))],
      sink glue
        [Pos (lit (PyStr ''f1'')),
         Pos (app (py_float X) (app (py_index 4) (var report_splits)))]]"

subsection \<open>The notebook\<close>

definition later_cells :: "'w ext \<Rightarrow> ('w state \<Rightarrow> 'w state) list" where
  "later_cells X =
     [load_cell X, train_cell X, predict_cell X, true_labels_cell X, report_cell X,
      metrics_cell X]"

definition cells :: "'w ext \<Rightarrow> bool \<Rightarrow> ('w state \<Rightarrow> 'w state) list" where
  "cells X q = [quick_run_cell q, imports_cell, configuration_cell X] @ later_cells X"

definition init :: "'w \<Rightarrow> 'w state" where
  "init w = \<lparr>globals = Map.empty, trace = [], world = w, exc = None\<rparr>"

definition run_notebook :: "'w ext \<Rightarrow> bool \<Rightarrow> 'w \<Rightarrow> 'w state" where
  "run_notebook X q w = block (cells X q) (init w)"

subsection \<open>Notions used to state the properties\<close>

text \<open>The constants the configuration cell sets, and the names the later cells bind.\<close>

definition config_names :: "name list" where
  "config_names =
     [TEST_DATA_FRACTION, TRAIN_SAMPLE_RATIO, TEST_SAMPLE_RATIO, NUM_TRAIN_EPOCHS, DATA_PATH,
      CACHE_DIR, RANDOM_SEED, MODEL_NAME, DO_LOWER_CASE, MAX_SEQ_LENGTH, TRAILING_PIECE_TAG,
      DEVICE, BATCH_SIZE]"

definition working_names :: "name list" where
  "working_names =
     [train_dataloader, test_dataloader, label_map, test_dataset, model, t, preds, true_labels,
      predicted_labels, report, report_splits]"

text \<open>The number bound to a name, if it is bound to a number.\<close>

definition num_global :: "'w state \<Rightarrow> name \<Rightarrow> rat option" where
  "num_global s x = (case globals s x of None \<Rightarrow> None | Some v \<Rightarrow> num_of v)"

text \<open>The notebook up to and including the configuration cell.\<close>

definition configured :: "'w ext \<Rightarrow> bool \<Rightarrow> 'w \<Rightarrow> 'w state" where
  "configured X q w = block [quick_run_cell q, imports_cell, configuration_cell X] (init w)"

text \<open>A statement \<open>c\<close> run from a state without pending exception that satisfies \<open>P\<close>
  ends in a state that satisfies \<open>Q\<close>.\<close>

definition hoare ::
  "('w state \<Rightarrow> bool) \<Rightarrow> ('w state \<Rightarrow> 'w state) \<Rightarrow> ('w state \<Rightarrow> bool) \<Rightarrow> bool" where
  "hoare P c Q \<longleftrightarrow> (\<forall>s. exc s = None \<longrightarrow> P s \<longrightarrow> Q (c s))"

text \<open>Two states are the same but for the values of the names in \<open>N\<close>; a statement blind to \<open>N\<close>
  does not let these values flow anywhere else.\<close>

definition agree :: "name set \<Rightarrow> 'w state \<Rightarrow> 'w state \<Rightarrow> bool" where
  "agree N s1 s2 \<longleftrightarrow>
     trace s1 = trace s2 \<and> world s1 = world s2 \<and> exc s1 = exc s2 \<and>
     (\<forall>x. x \<notin> N \<longrightarrow> globals s1 x = globals s2 x)"

definition blind_to :: "name set \<Rightarrow> ('w state \<Rightarrow> 'w state) \<Rightarrow> bool" where
  "blind_to N c \<longleftrightarrow> (\<forall>s1 s2. agree N s1 s2 \<longrightarrow> agree N (c s1) (c s2))"

definition ignores :: "name set \<Rightarrow> expr \<Rightarrow> bool" where
  "ignores N e \<longleftrightarrow> (\<forall>g1 g2. (\<forall>x. x \<notin> N \<longrightarrow> g1 x = g2 x) \<longrightarrow> e g1 = e g2)"

text \<open>The names the quick-run flag is meant to govern, and the flag itself.\<close>

definition quick_names :: "name set" where
  "quick_names = {QUICK_RUN, TRAIN_SAMPLE_RATIO, TEST_SAMPLE_RATIO, NUM_TRAIN_EPOCHS}"

text \<open>The calls of a complete run, in the order of the cells.\<close>

definition program_order :: "callee list" where
  "program_order =
     [TemporaryDirectory, TemporaryDirectory, manual_seed, cuda_is_available,
      load_dataset, TokenClassifier, fit, print, predict, print, get_true_test_labels,
      get_predicted_token_labels, classification_report, print, glue, glue, glue]"

text \<open>The orchestration steps: loading, construction, training, prediction, the report and
  the recording of its metrics.\<close>

definition orchestration :: "callee \<Rightarrow> bool" where
  "orchestration f \<longleftrightarrow>
     f \<in> set [load_dataset, TokenClassifier, fit, predict, classification_report, glue]"

definition orchestration_order :: "callee list" where
  "orchestration_order =
     [load_dataset, TokenClassifier, fit, predict, classification_report, glue, glue, glue]"

text \<open>From a state without pending exception, \<open>c\<close> only appends to the trace; the calls it
  appends are an initial part of \<open>fs\<close>, and all of \<open>fs\<close> if \<open>c\<close> completes.\<close>

definition emits :: "callee list \<Rightarrow> ('w state \<Rightarrow> 'w state) \<Rightarrow> bool" where
  "emits fs c \<longleftrightarrow>
     (\<forall>s. exc s = None \<longrightarrow>
        (\<exists>evs. trace (c s) = trace s @ evs \<and> prefix (map callee evs) fs \<and>
           (exc (c s) = None \<longrightarrow> map callee evs = fs)))"

text \<open>A trace and a pending exception fit together: a call that raised is the last call,
  and what it raised is pending.\<close>

fun halts :: "event list \<Rightarrow> exn option \<Rightarrow> bool" where
  "halts [] x = True"
| "halts (ev # evs) x =
     (case ret ev of Inr v \<Rightarrow> halts evs x | Inl e \<Rightarrow> evs = [] \<and> x = Some e)"

definition halted_at_raise :: "'w state \<Rightarrow> bool" where
  "halted_at_raise s \<longleftrightarrow> halts (trace s) (exc s)"







text \<open>How a recorded call relates to the current binding of \<open>label_map\<close>.\<close>

definition uses_map :: "pyval option \<Rightarrow> event \<Rightarrow> bool" where
  "uses_map lmo ev \<longleftrightarrow>
     (callee ev = load_dataset \<longrightarrow>
        (\<forall>v a b lm d. ret ev = Inr v \<longrightarrow> py_iter v = Inr [a, b, lm, d] \<longrightarrow> lmo = Some lm)) \<and>
     (callee ev = TokenClassifier \<longrightarrow>
        (\<exists>lm n. lmo = Some lm \<and> py_len lm = Inr n \<and> Kw ''num_labels'' n \<in> set (args ev))) \<and>
     (callee ev = get_true_test_labels \<or> callee ev = get_predicted_token_labels \<longrightarrow>
        (\<exists>lm. lmo = Some lm \<and> Kw ''label_map'' lm \<in> set (args ev)))"

definition threaded :: "'w state \<Rightarrow> bool" where
  "threaded s \<longleftrightarrow> list_all (uses_map (globals s label_map)) (trace s)"

definition map_call :: "callee \<Rightarrow> bool" where
  "map_call f \<longleftrightarrow>
     f \<in> set [load_dataset, TokenClassifier, get_true_test_labels, get_predicted_token_labels]"

definition map_free :: "'w state \<Rightarrow> bool" where
  "map_free s \<longleftrightarrow> list_all (\<lambda>ev. \<not> map_call (callee ev)) (trace s)"

text \<open>The metric extraction in the words of its description: the fields of the
  second-to-last line of the report, and the report having three numbers where the
  extraction reads them.\<close>

definition summary_fields :: "string \<Rightarrow> string list option" where
  "summary_fields r =
     (let ls = split_on newline r
      in if length ls < 2 then None else Some (split_ws (ls ! (length ls - 2))))"

definition report_shape :: "'w ext \<Rightarrow> string \<Rightarrow> bool" where
  "report_shape X r \<longleftrightarrow>
     (case summary_fields r of
        None \<Rightarrow> False
      | Some fs \<Rightarrow>
          5 \<le> length fs \<and> ext_float X (fs ! 2) \<noteq> None \<and> ext_float X (fs ! 3) \<noteq> None \<and>
          ext_float X (fs ! 4) \<noteq> None)"

definition glued :: "string \<Rightarrow> pyfloat \<Rightarrow> event" where
  "glued k f = \<lparr>callee = glue, args = [Pos (PyStr k), Pos (PyFloat f)], ret = Inr PyNone\<rparr>"

subsection \<open>An example environment\<close>

text \<open>A report in the layout of the formatter: a header, a blank line, one line per entity
  type, a blank line and the two lines of averages, each line ended by a newline.\<close>

definition sample_report :: string where
  "sample_report = concat (map (\<lambda>l. l @ [newline])
     [''           precision    recall  f1-score   support'',
      '''',
      ''      PER       0.92      0.94      0.93       102'',
      '''',
      ''micro avg       0.92      0.94      0.93       102'',
      ''macro avg       0.91      0.95      0.93       102''])"

text \<open>\<open>float\<close> on the plain decimal numerals \<open>d+\<close> and \<open>d+.d+\<close>, which is all the example
  needs; the example environment rejects every other string.\<close>

definition digit_of :: "char \<Rightarrow> nat option" where
  "digit_of = map_of
     [(CHR ''0'', 0), (CHR ''1'', 1), (CHR ''2'', 2), (CHR ''3'', 3), (CHR ''4'', 4),
      (CHR ''5'', 5), (CHR ''6'', 6), (CHR ''7'', 7), (CHR ''8'', 8), (CHR ''9'', 9)]"

fun digits_val :: "nat \<Rightarrow> string \<Rightarrow> nat option" where
  "digits_val n [] = Some n"
| "digits_val n (c # cs) =
     (case digit_of c of None \<Rightarrow> None | Some d \<Rightarrow> digits_val (10 * n + d) cs)"

definition decimal_float :: "string \<Rightarrow> pyfloat option" where
  "decimal_float s =
     (case split_on (CHR ''.'') s of
        [ip] \<Rightarrow>
          (if ip = [] then None
           else (case digits_val 0 ip of None \<Rightarrow> None | Some a \<Rightarrow> Some (Finite (of_nat a))))
      | [ip, fp] \<Rightarrow>
          (if ip = [] \<or> fp = [] then None
           else (case (digits_val 0 ip, digits_val 0 fp) of
                   (Some a, Some b) \<Rightarrow> Some (Finite (of_nat a + of_nat b / 10 ^ length fp))
                 | _ \<Rightarrow> None))
      | _ \<Rightarrow> None)"

text \<open>The libraries of the example: the world is the number of temporary directories made
  so far, \<open>cuda\<close> says whether a GPU is there, and \<open>failing\<close> names a call that raises.\<close>

fun sample_call :: "bool \<Rightarrow> callee \<Rightarrow> pyval arg list \<Rightarrow> nat \<Rightarrow> (exn + pyval) \<times> nat" where
  "sample_call cuda TemporaryDirectory as w =
     (Inr (PyStr (''/tmp/tmp'' @ replicate (Suc w) (CHR ''x''))), Suc w)"
| "sample_call cuda manual_seed as w = (Inr (PyObj ''Generator''), w)"
| "sample_call cuda cuda_is_available as w = (Inr (PyBool cuda), w)"
| "sample_call cuda load_dataset as w =
     (Inr (PyTuple [PyObj ''DataLoader'', PyObj ''DataLoader'',
                    PyDict [(''O'', PyInt 0), (''I-PER'', PyInt 1), (''X'', PyInt 2)],
                    PyObj ''TensorDataset'']), w)"
| "sample_call cuda TokenClassifier as w = (Inr (PyObj ''TokenClassifier''), w)"
| "sample_call cuda fit as w = (Inr PyNone, w)"
| "sample_call cuda predict as w = (Inr (PyObj ''ndarray''), w)"
| "sample_call cuda get_true_test_labels as w =
     (Inr (PyList [PyList [PyStr ''I-PER'', PyStr ''O'']]), w)"
| "sample_call cuda get_predicted_token_labels as w =
     (Inr (PyList [PyList [PyStr ''I-PER'', PyStr ''O'']]), w)"
| "sample_call cuda classification_report as w = (Inr (PyStr sample_report), w)"
| "sample_call cuda print as w = (Inr PyNone, w)"
| "sample_call cuda glue as w = (Inr PyNone, w)"

definition sample_ext :: "bool \<Rightarrow> callee option \<Rightarrow> nat ext" where
  "sample_ext cuda failing =
     \<lparr>ext_call = (\<lambda>f as w.
        if failing = Some f then (Inl (ExternalError ''out of memory''), w)
        else sample_call cuda f as w),
      ext_float = decimal_float,
      ext_elapsed = (\<lambda>w. 420)\<rparr>"

section \<open>Running statements\<close>

lemma block_Nil: "block [] s = s"
  by (simp add: block_def)

lemma block_raised: "exc s = Some e \<Longrightarrow> block cs s = s"
  by (induction cs) (simp_all add: block_def step_def)

lemma block_pending: "block cs (s\<lparr>exc := Some e\<rparr>) = s\<lparr>exc := Some e\<rparr>"
  by (rule block_raised [where e = e]) simp

lemma block_Cons: "exc s = None \<Longrightarrow> block (c # cs) s = block cs (c s)"
  by (simp add: block_def step_def)

lemma block_append: "block (as @ bs) s = block bs (block as s)"
  by (simp add: block_def)

lemma step_block: "step (block cs) s = block cs s"
  by (cases "exc s") (auto simp: step_def block_raised)

lemma block_block: "block (block as # cs) s = block (as @ cs) s"
  by (simp add: block_append) (simp add: block_def step_block)

lemma block_assign:
  "exc s = None \<Longrightarrow> block (assign x e # cs) s =
    (case e (globals s) of
       Inl err \<Rightarrow> s\<lparr>exc := Some err\<rparr>
     | Inr v \<Rightarrow> block cs (s\<lparr>globals := (globals s)(x \<mapsto> v)\<rparr>))"
  by (simp add: block_Cons assign_def bind_name_def raise_def block_pending split: sum.split)

lemma block_if:
  "exc s = None \<Longrightarrow> block (if_stmt e as bs # cs) s =
    (case e (globals s) of
       Inl err \<Rightarrow> s\<lparr>exc := Some err\<rparr>
     | Inr v \<Rightarrow> block ((if py_truthy v then as else bs) @ cs) s)"
  by (simp add: block_Cons if_stmt_def raise_def block_pending block_append split: sum.split)

lemma block_with:
  "exc s = None \<Longrightarrow> block (with_Timer x body # cs) s =
     block (body @ cs) (s\<lparr>globals := (globals s)(x \<mapsto> PyObj ''Timer'')\<rparr>)"
  by (simp add: block_Cons with_Timer_def bind_name_def block_append)

lemma block_call:
  "exc s = None \<Longrightarrow> block (call X f as k # cs) s =
     (case eval_args as (globals s) of
        Inl err \<Rightarrow> s\<lparr>exc := Some err\<rparr>
      | Inr vs \<Rightarrow>
          (case ext_call X f vs (world s) of
             (Inl err, w') \<Rightarrow>
               s\<lparr>trace := trace s @ [\<lparr>callee = f, args = vs, ret = Inl err\<rparr>], world := w',
                 exc := Some err\<rparr>
           | (Inr v, w') \<Rightarrow>
               block cs (k v (s\<lparr>trace := trace s @ [\<lparr>callee = f, args = vs, ret = Inr v\<rparr>],
                                world := w'\<rparr>))))"
  by (simp add: block_Cons call_def raise_def Let_def block_pending split: sum.split prod.split)

lemma block_sink:
  "exc s = None \<Longrightarrow> block (sink f as # cs) s =
     (case eval_args as (globals s) of
        Inl err \<Rightarrow> s\<lparr>exc := Some err\<rparr>
      | Inr vs \<Rightarrow>
          block cs (s\<lparr>trace := trace s @ [\<lparr>callee = f, args = vs, ret = Inr PyNone\<rparr>]\<rparr>))"
  by (simp add: block_Cons sink_def raise_def block_pending split: sum.split)

lemma block_print_hours:
  "exc s = None \<Longrightarrow> block (print_hours X tpl x # cs) s =
     (case globals s x of
        None \<Rightarrow> s\<lparr>exc := Some NameError\<rparr>
      | Some _ \<Rightarrow>
          block cs (s\<lparr>trace := trace s @
            [\<lparr>callee = print,
              args = [Pos (PyStr tpl), Pos (PyFloat (Finite (ext_elapsed X (world s) / 3600)))],
              ret = Inr PyNone\<rparr>]\<rparr>))"
  by (simp add: block_Cons print_hours_def sink_def raise_def block_pending lit_def
      split: option.split)

lemma lit_apply: "lit v g = Inr v"
  by (simp add: lit_def)

lemma var_apply: "var x g = (case g x of None \<Rightarrow> Inl NameError | Some v \<Rightarrow> Inr v)"
  by (simp add: var_def)

lemma app_apply: "app f e g = (case e g of Inl x \<Rightarrow> Inl x | Inr v \<Rightarrow> f v)"
  by (simp add: app_def)

lemma unpack4:
  "unpack [x1, x2, x3, x4] v s =
     (case py_iter v of
        Inl err \<Rightarrow> s\<lparr>exc := Some err\<rparr>
      | Inr vs \<Rightarrow>
          (case vs of
             [a, b, c, d] \<Rightarrow> s\<lparr>globals := (globals s)(x1 \<mapsto> a, x2 \<mapsto> b, x3 \<mapsto> c, x4 \<mapsto> d)\<rparr>
           | _ \<Rightarrow> s\<lparr>exc := Some ValueError\<rparr>))"
  by (auto simp add: unpack_def raise_def bind_name_def split: sum.split list.split)

lemmas exec = block_Nil block_pending block_block block_assign block_if block_with block_call
  block_sink block_print_hours lit_apply var_apply app_apply bind_name_def discard_def unpack4
  assign_def raise_def

lemmas cell_defs = quick_run_cell_def imports_cell_def configuration_cell_def load_cell_def
  train_cell_def predict_cell_def true_labels_cell_def report_cell_def metrics_cell_def

lemma exc_block_None: "exc (block cs s) = None \<Longrightarrow> exc s = None"
  by (cases "exc s") (simp_all add: block_raised)

section \<open>The configuration cell\<close>


lemma configured_start:
  "configured X q w = configuration_cell X
     \<lparr>globals = [QUICK_RUN \<mapsto> PyBool q], trace = [], world = w, exc = None\<rparr>"
  by (simp add: configured_def init_def quick_run_cell_def imports_cell_def exec block_Cons)


lemma quick_run_values:
  assumes "exc s = None" and "globals s QUICK_RUN = Some (PyBool q)"
  shows "num_global (configuration_cell X s) TRAIN_SAMPLE_RATIO = Some (if q then 1 / 10 else 1)"
    and "num_global (configuration_cell X s) TEST_SAMPLE_RATIO = Some (if q then 1 / 10 else 1)"
    and "num_global (configuration_cell X s) NUM_TRAIN_EPOCHS = Some (if q then 1 else 5)"
  using assms
  by (simp_all add: configuration_cell_def num_global_def exec split: sum.split prod.split)

text \<open>
  C1. After the configuration cell, the two sampling ratios are 0.1 and the epoch count is 1
  when QUICK_RUN is true, and the ratios are 1 and the epoch count is 5 when it is false.
  The full-run ratios are stored as the integer 1, which Python equates with 1.0. The
  values are in place whether or not a later call of the cell raises.
\<close>

theorem quick_run_overrides:
  "num_global (configured X q w) TRAIN_SAMPLE_RATIO = Some (if q then 1 / 10 else 1) \<and>
   num_global (configured X q w) TEST_SAMPLE_RATIO = Some (if q then 1 / 10 else 1) \<and>
   num_global (configured X q w) NUM_TRAIN_EPOCHS = Some (if q then 1 else 5)"
  unfolding configured_start
  by (intro conjI quick_run_values) simp_all

lemma sample_configured:
  "configured (sample_ext c None) q w =
     \<lparr>globals =
        [QUICK_RUN \<mapsto> PyBool q,
         TEST_DATA_FRACTION \<mapsto> PyFloat (Finite (3 / 10)),
         TRAIN_SAMPLE_RATIO \<mapsto> (if q then PyFloat (Finite (1 / 10)) else PyInt 1),
         TEST_SAMPLE_RATIO \<mapsto> (if q then PyFloat (Finite (1 / 10)) else PyInt 1),
         NUM_TRAIN_EPOCHS \<mapsto> PyInt (if q then 1 else 5),
         DATA_PATH \<mapsto> PyStr (''/tmp/tmp'' @ replicate (Suc w) (CHR ''x'')),
         CACHE_DIR \<mapsto> PyStr (''/tmp/tmp'' @ replicate (Suc (Suc w)) (CHR ''x'')),
         RANDOM_SEED \<mapsto> PyInt 100,
         MODEL_NAME \<mapsto> PyStr ''bert-base-cased'',
         DO_LOWER_CASE \<mapsto> PyBool False,
         MAX_SEQ_LENGTH \<mapsto> PyInt 200,
         TRAILING_PIECE_TAG \<mapsto> PyStr ''X'',
         DEVICE \<mapsto> PyStr ''cuda'',
         BATCH_SIZE \<mapsto> PyInt (if c then 16 else 8)],
      trace =
        [\<lparr>callee = TemporaryDirectory, args = [],
          ret = Inr (PyStr (''/tmp/tmp'' @ replicate (Suc w) (CHR ''x'')))\<rparr>,
         \<lparr>callee = TemporaryDirectory, args = [],
          ret = Inr (PyStr (''/tmp/tmp'' @ replicate (Suc (Suc w)) (CHR ''x'')))\<rparr>,
         \<lparr>callee = manual_seed, args = [Pos (PyInt 100)], ret = Inr (PyObj ''Generator'')\<rparr>,
         \<lparr>callee = cuda_is_available, args = [], ret = Inr (PyBool c)\<rparr>],
      world = Suc (Suc w), exc = None\<rparr>"
  unfolding configured_start
  by (cases q; cases c) (simp_all add: configuration_cell_def exec sample_ext_def fun_upd_twist)

theorem quick_run_overrides_witness:
  "exc (configured (sample_ext True None) True 0) = None \<and>
   num_global (configured (sample_ext True None) True 0) TRAIN_SAMPLE_RATIO = Some (1 / 10) \<and>
   num_global (configured (sample_ext True None) False 0) TRAIN_SAMPLE_RATIO = Some 1 \<and>
   num_global (configured (sample_ext True None) True 0) NUM_TRAIN_EPOCHS = Some 1 \<and>
   num_global (configured (sample_ext True None) False 0) NUM_TRAIN_EPOCHS = Some 5"
  using quick_run_overrides [of "sample_ext True None" True 0]
    quick_run_overrides [of "sample_ext True None" False 0]
  by (simp add: sample_configured)

section \<open>The metric extraction\<close>

lemma seq_index_last_but_one:
  "seq_index xs (- 2) =
     (if 2 \<le> length xs then Inr (xs ! (length xs - 2)) else Inl IndexError)"
  by (simp add: seq_index_def)

lemma seq_index_numeral:
  "seq_index xs (numeral k) =
     (if numeral k < length xs then Inr (xs ! numeral k) else Inl IndexError)"
  by (simp add: seq_index_def)

lemma metrics_cell_unfold:
  assumes "exc s = None" and "globals s report = Some (PyStr r)"
  shows "metrics_cell X s =
    (case summary_fields r of
       None \<Rightarrow> s\<lparr>exc := Some IndexError\<rparr>
     | Some fs \<Rightarrow>
         block
           [sink glue
              [Pos (lit (PyStr ''precision'')),
               Pos (app (py_float X) (app (py_index 2) (var report_splits)))],
            sink glue
              [Pos (lit (PyStr ''recall'')),
               Pos (app (py_float X) (app (py_index 3) (var report_splits)))],
            sink glue
              [Pos (lit (PyStr ''f1'')),
               Pos (app (py_float X) (app (py_index 4) (var report_splits)))]]
           (s\<lparr>globals := (globals s)(report_splits \<mapsto> PyList (map PyStr fs))\<rparr>))"
  using assms
  by (simp add: metrics_cell_def summary_fields_def Let_def block_assign block_pending app_apply
      var_apply seq_index_last_but_one not_less del: eval_args.simps)

lemma glue_field:
  assumes "g report_splits = Some (PyList (map PyStr fs))"
  shows "eval_args [Pos (lit (PyStr k)), Pos (app (py_float X) (app (py_index (numeral i)) (var report_splits)))] g =
    (if numeral i < length fs
     then (case ext_float X (fs ! numeral i) of
             None \<Rightarrow> Inl ValueError
           | Some f \<Rightarrow> Inr [Pos (PyStr k), Pos (PyFloat f)])
     else Inl IndexError)"
  using assms
  by (simp add: lit_apply app_apply var_apply seq_index_numeral split: option.split)

text \<open>
  C2. When the second-to-last line of the report has at least five whitespace-separated
  fields and the fields at indices 2, 3 and 4 are accepted by \<open>float\<close>, the extraction
  completes and records exactly three metrics, in this order: field 2 as precision, field 3
  as recall and field 4 as f1, each converted to a float.
\<close>

theorem metric_extraction:
  assumes "exc s = None" and "globals s report = Some (PyStr r)"
    and "summary_fields r = Some fs" and "5 \<le> length fs"
    and "ext_float X (fs ! 2) = Some p" and "ext_float X (fs ! 3) = Some rc"
    and "ext_float X (fs ! 4) = Some f"
  shows "exc (metrics_cell X s) = None \<and>
    trace (metrics_cell X s) =
      trace s @ [glued ''precision'' p, glued ''recall'' rc, glued ''f1'' f] \<and>
    globals (metrics_cell X s) report_splits = Some (PyList (map PyStr fs))"
  using assms
  by (simp add: metrics_cell_unfold block_sink glue_field block_Nil glued_def
      del: eval_args.simps)

text \<open>
  C10. The extraction is partial. It completes exactly when the report has a
  second-to-last line with at least five fields of which those at indices 2, 3 and 4 are
  accepted by \<open>float\<close>; on every other report string it raises \<open>IndexError\<close> or
  \<open>ValueError\<close>.
\<close>

theorem extraction_is_partial:
  assumes "exc s = None" and "globals s report = Some (PyStr r)"
  shows "(exc (metrics_cell X s) = None \<longleftrightarrow> report_shape X r) \<and>
    (\<not> report_shape X r \<longrightarrow>
       exc (metrics_cell X s) = Some IndexError \<or> exc (metrics_cell X s) = Some ValueError)"
proof (cases "summary_fields r")
  case None
  with assms show ?thesis
    by (simp add: metrics_cell_unfold report_shape_def)
next
  case (Some fs)
  with assms show ?thesis
    by (simp add: metrics_cell_unfold report_shape_def block_sink glue_field block_Nil
        block_pending del: eval_args.simps split: option.split)
qed

section \<open>The example report\<close>

lemma sample_summary:
  "summary_fields sample_report = Some [''macro'', ''avg'', ''0.91'', ''0.95'', ''0.93'', ''102'']"
  by (simp add: summary_fields_def sample_report_def newline_def split_ws_def py_isspace_def)

lemma sample_floats:
  "decimal_float ''0.91'' = Some (Finite (91 / 100))"
  "decimal_float ''0.95'' = Some (Finite (95 / 100))"
  "decimal_float ''0.93'' = Some (Finite (93 / 100))"
  by (simp_all add: decimal_float_def digit_of_def)

theorem metric_extraction_witness:
  "exc (metrics_cell (sample_ext True None) (bind_name report (PyStr sample_report) (init 0))) = None \<and>
   trace (metrics_cell (sample_ext True None) (bind_name report (PyStr sample_report) (init 0))) =
     [glued ''precision'' (Finite (91 / 100)), glued ''recall'' (Finite (95 / 100)),
      glued ''f1'' (Finite (93 / 100))]"
  using metric_extraction [of "bind_name report (PyStr sample_report) (init 0)" sample_report
      "[''macro'', ''avg'', ''0.91'', ''0.95'', ''0.93'', ''102'']" "sample_ext True None"
      "Finite (91 / 100)" "Finite (95 / 100)" "Finite (93 / 100)"]
  by (simp add: sample_summary sample_floats bind_name_def init_def sample_ext_def)

lemma empty_summary: "summary_fields [] = None"
  by (simp add: summary_fields_def)

theorem extraction_is_partial_witness:
  "\<not> report_shape (sample_ext True None) [] \<and>
   exc (metrics_cell (sample_ext True None) (bind_name report (PyStr []) (init 0))) = Some IndexError \<and>
   report_shape (sample_ext True None) sample_report \<and>
   exc (metrics_cell (sample_ext True None) (bind_name report (PyStr sample_report) (init 0))) = None"
  using extraction_is_partial [of "bind_name report (PyStr []) (init 0)" "[]" "sample_ext True None"]
    extraction_is_partial [of "bind_name report (PyStr sample_report) (init 0)" sample_report
      "sample_ext True None"]
  by (simp add: report_shape_def empty_summary sample_summary sample_floats bind_name_def init_def
      sample_ext_def metrics_cell_unfold)

section \<open>What the cells bind\<close>

lemma later_cells_frame:
  assumes "c \<in> set (later_cells X)" and "x \<notin> set working_names"
  shows "globals (c s) x = globals s x"
proof (cases "exc s")
  case (Some e)
  with assms(1) show ?thesis
    by (auto simp: later_cells_def cell_defs block_raised)
next
  case None
  from assms(2) have x:
    "x \<noteq> train_dataloader" "x \<noteq> test_dataloader" "x \<noteq> label_map" "x \<noteq> test_dataset"
    "x \<noteq> model" "x \<noteq> t" "x \<noteq> preds" "x \<noteq> true_labels" "x \<noteq> predicted_labels"
    "x \<noteq> report" "x \<noteq> report_splits"
    by (simp_all add: working_names_def)
  from assms(1) consider "c = load_cell X" | "c = train_cell X" | "c = predict_cell X"
    | "c = true_labels_cell X" | "c = report_cell X" | "c = metrics_cell X"
    by (auto simp: later_cells_def)
  then show ?thesis
  proof cases
    case 1
    with None x show ?thesis
      by (simp add: load_cell_def exec del: eval_args.simps
          split: sum.split prod.split list.split)
  next
    case 2
    with None x show ?thesis
      by (simp add: train_cell_def exec del: eval_args.simps split: sum.split prod.split)
  next
    case 3
    with None x show ?thesis
      by (simp add: predict_cell_def exec del: eval_args.simps split: sum.split prod.split)
  next
    case 4
    with None x show ?thesis
      by (simp add: true_labels_cell_def exec del: eval_args.simps split: sum.split prod.split)
  next
    case 5
    with None x show ?thesis
      by (simp add: report_cell_def exec del: eval_args.simps split: sum.split prod.split)
  next
    case 6
    with None x show ?thesis
      by (simp add: metrics_cell_def exec del: eval_args.simps split: sum.split prod.split)
  qed
qed

lemma configuration_binds:
  assumes "x \<in> set config_names"
  shows "exc (configured X q w) = None \<longrightarrow> globals (configured X q w) x \<noteq> None"
  using assms unfolding configured_start config_names_def
  by (auto simp add: configuration_cell_def exec split: sum.split prod.split)

lemma unbound_before_configuration:
  assumes "x \<in> set config_names"
  shows "globals (block [quick_run_cell q, imports_cell] (init w)) x = None"
  using assms
  by (auto simp: config_names_def init_def quick_run_cell_def imports_cell_def exec)


lemma block_frame:
  assumes "\<And>c s. c \<in> set cs \<Longrightarrow> globals (c s) x = globals s x"
  shows "globals (block cs s) x = globals s x"
  using assms
proof (induction cs arbitrary: s)
  case Nil
  show ?case by (simp add: block_Nil)
next
  case (Cons c cs)
  show ?case
  proof (cases "exc s")
    case None
    then have "globals (block (c # cs) s) x = globals (block cs (c s)) x"
      by (simp add: block_Cons)
    also have "\<dots> = globals (c s) x"
      using Cons.prems by (intro Cons.IH) simp
    also have "\<dots> = globals s x"
      using Cons.prems by simp
    finally show ?thesis .
  next
    case (Some e)
    then show ?thesis by (simp add: block_raised)
  qed
qed

lemma run_notebook_configured:
  "run_notebook X q w = block (later_cells X) (configured X q w)"
  unfolding run_notebook_def cells_def configured_def by (rule block_append)

text \<open>
  C5. Each configuration constant is unbound before the configuration cell, bound when
  that cell has completed, and left alone by every later cell, so that at the end of the
  notebook it has the value the configuration cell gave it.
\<close>

theorem configuration_immutable:
  assumes "x \<in> set config_names"
  shows "globals (block [quick_run_cell q, imports_cell] (init w)) x = None \<and>
    (exc (configured X q w) = None \<longrightarrow> globals (configured X q w) x \<noteq> None) \<and>
    (\<forall>c \<in> set (later_cells X). \<forall>s. globals (c s) x = globals s x) \<and>
    globals (run_notebook X q w) x = globals (configured X q w) x"
proof -
  from assms have "x \<notin> set working_names"
    by (auto simp: config_names_def working_names_def)
  then have frame: "globals (c s) x = globals s x" if "c \<in> set (later_cells X)" for c s
    using that by (rule later_cells_frame [rotated])
  have final: "globals (run_notebook X q w) x = globals (configured X q w) x"
    unfolding run_notebook_configured by (rule block_frame) (rule frame)
  have later: "\<forall>c \<in> set (later_cells X). \<forall>s. globals (c s) x = globals s x"
    using frame by simp
  show ?thesis
    using unbound_before_configuration [OF assms, of q w]
      configuration_binds [OF assms, of X q w] later final
    by (intro conjI)
qed

theorem configuration_immutable_witness:
  "BATCH_SIZE \<in> set config_names \<and>
   exc (configured (sample_ext True None) False 0) = None \<and>
   globals (configured (sample_ext True None) False 0) BATCH_SIZE = Some (PyInt 16) \<and>
   globals (load_cell (sample_ext True None) (configured (sample_ext True None) False 0))
     BATCH_SIZE = Some (PyInt 16) \<and>
   globals (run_notebook (sample_ext True None) False 0) BATCH_SIZE = Some (PyInt 16)"
proof -
  have m: "BATCH_SIZE \<in> set config_names"
    by (simp add: config_names_def)
  have c: "load_cell (sample_ext True None) \<in> set (later_cells (sample_ext True None))"
    by (simp add: later_cells_def)
  from configuration_immutable [OF m, of False 0 "sample_ext True None"] c
  show ?thesis
    by (simp add: m sample_configured)
qed

section \<open>What the cells read\<close>

lemma ignores_lit: "ignores N (lit v)"
  by (simp add: ignores_def lit_def)

lemma ignores_var: "x \<notin> N \<Longrightarrow> ignores N (var x)"
  by (simp add: ignores_def var_def)

lemma ignores_app: "ignores N e \<Longrightarrow> ignores N (app f e)"
  unfolding ignores_def app_def by metis

lemma eval_args_agree:
  assumes "\<And>a. a \<in> set as \<Longrightarrow> ignores N (arg_expr a)"
    and "\<And>x. x \<notin> N \<Longrightarrow> g1 x = g2 x"
  shows "eval_args as g1 = eval_args as g2"
  using assms(1)
proof (induction as)
  case Nil
  show ?case by simp
next
  case (Cons a as)
  have hd: "arg_expr a g1 = arg_expr a g2"
    using Cons.prems [of a] assms(2) by (simp add: ignores_def)
  have tl: "eval_args as g1 = eval_args as g2"
    using Cons.prems by (intro Cons.IH) simp
  show ?case
    unfolding eval_args.simps hd tl ..
qed

lemma agree_raise: "agree N s1 s2 \<Longrightarrow> agree N (raise e s1) (raise e s2)"
  by (simp add: agree_def raise_def)

lemma agree_bind: "agree N s1 s2 \<Longrightarrow> agree N (bind_name x v s1) (bind_name x v s2)"
  by (simp add: agree_def bind_name_def)

lemma blind_bind: "blind_to N (bind_name x v)"
  by (simp add: blind_to_def agree_bind)

lemma blind_discard: "blind_to N (discard v)"
  by (simp add: blind_to_def discard_def)

lemma agree_binds:
  "agree N s1 s2 \<Longrightarrow>
   agree N (fold (\<lambda>(x, u). bind_name x u) ps s1) (fold (\<lambda>(x, u). bind_name x u) ps s2)"
  by (induction ps arbitrary: s1 s2) (auto simp: agree_bind)

lemma blind_unpack: "blind_to N (unpack xs v)"
  by (auto simp: blind_to_def unpack_def agree_raise agree_binds split: sum.split)

lemma blind_assign:
  assumes "ignores N e"
  shows "blind_to N (assign x e)"
  unfolding blind_to_def
proof (intro allI impI)
  fix s1 s2 :: "'a state"
  assume a: "agree N s1 s2"
  then have "e (globals s1) = e (globals s2)"
    using assms by (simp add: ignores_def agree_def)
  with a show "agree N (assign x e s1) (assign x e s2)"
    by (simp add: assign_def agree_raise agree_bind split: sum.split)
qed

lemma blind_block:
  assumes "\<And>c. c \<in> set cs \<Longrightarrow> blind_to N c"
  shows "blind_to N (block cs)"
  unfolding blind_to_def
proof (intro allI impI)
  fix s1 s2 :: "'a state"
  assume "agree N s1 s2"
  with assms show "agree N (block cs s1) (block cs s2)"
  proof (induction cs arbitrary: s1 s2)
    case Nil
    then show ?case by (simp add: block_Nil)
  next
    case (Cons c cs)
    from Cons.prems(2) have e: "exc s1 = exc s2"
      by (simp add: agree_def)
    have "agree N (step c s1) (step c s2)"
      using Cons.prems e by (simp add: step_def blind_to_def)
    then have "agree N (block cs (step c s1)) (block cs (step c s2))"
      using Cons.prems(1) by (intro Cons.IH) simp_all
    then show ?case by (simp add: block_def)
  qed
qed

lemma blind_call:
  assumes "\<And>a. a \<in> set as \<Longrightarrow> ignores N (arg_expr a)" and "\<And>v. blind_to N (k v)"
  shows "blind_to N (call X f as k)"
  unfolding blind_to_def
proof (intro allI impI)
  fix s1 s2 :: "'a state"
  assume a: "agree N s1 s2"
  then have args: "eval_args as (globals s1) = eval_args as (globals s2)"
    by (intro eval_args_agree [where N = N] assms(1)) (simp_all add: agree_def)
  show "agree N (call X f as k s1) (call X f as k s2)"
  proof (cases "eval_args as (globals s2)")
    case (Inl err)
    with a args show ?thesis
      by (simp add: call_def agree_raise)
  next
    case (Inr vs)
    obtain r w' where x: "ext_call X f vs (world s2) = (r, w')"
      by (cases "ext_call X f vs (world s2)")
    let ?ev = "\<lparr>callee = f, args = vs, ret = r\<rparr>"
    have b: "agree N (s1\<lparr>trace := trace s1 @ [?ev], world := w'\<rparr>)
        (s2\<lparr>trace := trace s2 @ [?ev], world := w'\<rparr>)"
      using a by (simp add: agree_def)
    from a have w: "world s1 = world s2"
      by (simp add: agree_def)
    show ?thesis
    proof (cases r)
      case (Inl err)
      with Inr args x w b show ?thesis
        by (simp add: call_def agree_raise)
    next
      case r: (Inr v)
      from assms(2) [of v] b
      have "agree N (k v (s1\<lparr>trace := trace s1 @ [?ev], world := w'\<rparr>))
          (k v (s2\<lparr>trace := trace s2 @ [?ev], world := w'\<rparr>))"
        by (simp add: blind_to_def)
      with Inr args x w r show ?thesis
        by (simp add: call_def)
    qed
  qed
qed

lemma blind_sink:
  assumes "\<And>a. a \<in> set as \<Longrightarrow> ignores N (arg_expr a)"
  shows "blind_to N (sink f as)"
  unfolding blind_to_def
proof (intro allI impI)
  fix s1 s2 :: "'a state"
  assume a: "agree N s1 s2"
  then have "eval_args as (globals s1) = eval_args as (globals s2)"
    by (intro eval_args_agree [where N = N] assms) (simp_all add: agree_def)
  with a show "agree N (sink f as s1) (sink f as s2)"
    by (auto simp: sink_def agree_raise split: sum.split) (simp add: agree_def)
qed

lemma blind_with:
  assumes "\<And>c. c \<in> set cs \<Longrightarrow> blind_to N c"
  shows "blind_to N (with_Timer x cs)"
  using blind_block [OF assms]
  by (simp add: blind_to_def with_Timer_def agree_bind)

lemma blind_print_hours:
  assumes "x \<notin> N"
  shows "blind_to N (print_hours X tpl x)"
  unfolding blind_to_def
proof (intro allI impI)
  fix s1 s2 :: "'a state"
  assume a: "agree N s1 s2"
  with assms have same: "globals s1 x = globals s2 x" "world s1 = world s2"
    by (simp_all add: agree_def)
  let ?as = "[Pos (lit (PyStr tpl)),
    Pos (lit (PyFloat (Finite (ext_elapsed X (world s2) / 3600))))]"
  have "blind_to N (sink print ?as :: 'a state \<Rightarrow> 'a state)"
    by (rule blind_sink) (auto simp: ignores_lit)
  with a have "agree N (sink print ?as s1) (sink print ?as s2)"
    by (simp add: blind_to_def)
  with a same show "agree N (print_hours X tpl x s1) (print_hours X tpl x s2)"
    by (simp add: print_hours_def agree_raise split: option.split)
qed

lemma blind_choice:
  assumes "blind_to N c" and "blind_to N d"
  shows "blind_to N (if b then c else d)"
  using assms by simp

lemmas blind_rules = blind_block blind_call blind_sink blind_with blind_print_hours
  blind_assign blind_bind blind_discard blind_unpack blind_choice ignores_lit ignores_var
  ignores_app

section \<open>The reach of the quick-run flag\<close>

lemma configuration_rest_blind:
  "blind_to quick_names (block
     [call X TemporaryDirectory [] (bind_name DATA_PATH),
      call X TemporaryDirectory [] (bind_name CACHE_DIR),
      assign RANDOM_SEED (lit (PyInt 100)),
      call X manual_seed [Pos (var RANDOM_SEED)] discard,
      assign MODEL_NAME (lit (PyStr ''bert-base-cased'')),
      assign DO_LOWER_CASE (lit (PyBool False)),
      assign MAX_SEQ_LENGTH (lit (PyInt 200)),
      assign TRAILING_PIECE_TAG (lit (PyStr ''X'')),
      assign DEVICE (lit (PyStr ''cuda'')),
      call X cuda_is_available []
        (\<lambda>v. if py_truthy v then assign BATCH_SIZE (lit (PyInt 16))
             else assign BATCH_SIZE (lit (PyInt 8)))])"
  by (rule blind_block) (auto intro!: blind_rules simp: quick_names_def)

lemma configuration_cell_split:
  assumes "exc s = None" and "globals s QUICK_RUN = Some (PyBool q)"
  shows "configuration_cell X s = block
     [call X TemporaryDirectory [] (bind_name DATA_PATH),
      call X TemporaryDirectory [] (bind_name CACHE_DIR),
      assign RANDOM_SEED (lit (PyInt 100)),
      call X manual_seed [Pos (var RANDOM_SEED)] discard,
      assign MODEL_NAME (lit (PyStr ''bert-base-cased'')),
      assign DO_LOWER_CASE (lit (PyBool False)),
      assign MAX_SEQ_LENGTH (lit (PyInt 200)),
      assign TRAILING_PIECE_TAG (lit (PyStr ''X'')),
      assign DEVICE (lit (PyStr ''cuda'')),
      call X cuda_is_available []
        (\<lambda>v. if py_truthy v then assign BATCH_SIZE (lit (PyInt 16))
             else assign BATCH_SIZE (lit (PyInt 8)))]
     (s\<lparr>globals := (globals s)
        (TEST_DATA_FRACTION \<mapsto> PyFloat (Finite (3 / 10)),
         TRAIN_SAMPLE_RATIO \<mapsto> (if q then PyFloat (Finite (1 / 10)) else PyInt 1),
         TEST_SAMPLE_RATIO \<mapsto> (if q then PyFloat (Finite (1 / 10)) else PyInt 1),
         NUM_TRAIN_EPOCHS \<mapsto> PyInt (if q then 1 else 5))\<rparr>)"
  using assms
  by (simp add: configuration_cell_def block_assign block_if lit_apply var_apply)

text \<open>
  C3. The two runs of the configuration cell that differ in the value of QUICK_RUN only
  make the same calls, end with the same pending exception, and give the same value to
  every name other than QUICK_RUN, the two sampling ratios and the epoch count: in
  particular to TEST_DATA_FRACTION, RANDOM_SEED, MODEL_NAME, DO_LOWER_CASE, MAX_SEQ_LENGTH,
  TRAILING_PIECE_TAG, DEVICE and BATCH_SIZE.
\<close>

theorem quick_run_frame:
  "trace (configured X True w) = trace (configured X False w) \<and>
   exc (configured X True w) = exc (configured X False w) \<and>
   (\<forall>x. x \<notin> {QUICK_RUN, TRAIN_SAMPLE_RATIO, TEST_SAMPLE_RATIO, NUM_TRAIN_EPOCHS} \<longrightarrow>
      globals (configured X True w) x = globals (configured X False w) x) \<and>
   (\<forall>x \<in> set [TEST_DATA_FRACTION, RANDOM_SEED, MODEL_NAME, DO_LOWER_CASE, MAX_SEQ_LENGTH,
               TRAILING_PIECE_TAG, DEVICE, BATCH_SIZE].
      globals (configured X True w) x = globals (configured X False w) x)"
proof -
  let ?s = "\<lambda>q. \<lparr>globals = [QUICK_RUN \<mapsto> PyBool q], trace = [], world = w, exc = None\<rparr>"
  have "agree quick_names (configuration_cell X (?s True)) (configuration_cell X (?s False))"
    unfolding configuration_cell_split [of "?s True" True X, simplified]
      configuration_cell_split [of "?s False" False X, simplified]
    by (rule configuration_rest_blind [unfolded blind_to_def, rule_format])
      (simp add: agree_def quick_names_def)
  then have "agree quick_names (configured X True w) (configured X False w)"
    by (simp add: configured_start)
  then show ?thesis
    by (simp add: agree_def quick_names_def)
qed

theorem quick_run_frame_witness:
  "globals (configured (sample_ext True None) True 0) BATCH_SIZE = Some (PyInt 16) \<and>
   globals (configured (sample_ext True None) False 0) BATCH_SIZE = Some (PyInt 16) \<and>
   globals (configured (sample_ext True None) True 0) TRAIN_SAMPLE_RATIO
     \<noteq> globals (configured (sample_ext True None) False 0) TRAIN_SAMPLE_RATIO"
  using quick_run_frame [of "sample_ext True None" 0]
  by (simp add: sample_configured)

section \<open>What depends on the environment\<close>

lemma batch_size_rule:
  "exc (configured X q w) = None \<longrightarrow>
     callee (last (trace (configured X q w))) = cuda_is_available \<and>
     (\<exists>v. ret (last (trace (configured X q w))) = Inr v \<and>
        globals (configured X q w) BATCH_SIZE = Some (PyInt (if py_truthy v then 16 else 8)))"
  unfolding configured_start
  by (simp add: configuration_cell_split [of _ q, simplified] exec split: sum.split prod.split)
    blast

lemma fixed_values:
  assumes "exc (configured X q w) = None"
  shows "globals (configured X q w) TEST_DATA_FRACTION = Some (PyFloat (Finite (3 / 10)))"
    and "globals (configured X q w) TRAIN_SAMPLE_RATIO =
      Some (if q then PyFloat (Finite (1 / 10)) else PyInt 1)"
    and "globals (configured X q w) TEST_SAMPLE_RATIO =
      Some (if q then PyFloat (Finite (1 / 10)) else PyInt 1)"
    and "globals (configured X q w) NUM_TRAIN_EPOCHS = Some (PyInt (if q then 1 else 5))"
    and "globals (configured X q w) RANDOM_SEED = Some (PyInt 100)"
    and "globals (configured X q w) MODEL_NAME = Some (PyStr ''bert-base-cased'')"
    and "globals (configured X q w) DO_LOWER_CASE = Some (PyBool False)"
    and "globals (configured X q w) MAX_SEQ_LENGTH = Some (PyInt 200)"
    and "globals (configured X q w) TRAILING_PIECE_TAG = Some (PyStr ''X'')"
    and "globals (configured X q w) DEVICE = Some (PyStr ''cuda'')"
  using assms unfolding configured_start
  by (simp_all add: configuration_cell_split [of _ q, simplified] exec
      split: sum.split_asm prod.split_asm if_split_asm)

text \<open>
  C9, as the code has it: once the configuration cell has completed, BATCH_SIZE is 16 if
  the answer of \<open>torch.cuda.is_available()\<close>, the last call of the cell, is true and 8
  otherwise, whatever QUICK_RUN is. Every configuration constant other than BATCH_SIZE and
  the two temporary-directory paths DATA_PATH and CACHE_DIR has the same value in any two
  environments.
\<close>

theorem environment_dependence:
  assumes "exc (configured X q w) = None" and "exc (configured X' q w') = None"
  shows "callee (last (trace (configured X q w))) = cuda_is_available \<and>
    (\<exists>v. ret (last (trace (configured X q w))) = Inr v \<and>
       globals (configured X q w) BATCH_SIZE = Some (PyInt (if py_truthy v then 16 else 8))) \<and>
    (\<forall>x \<in> set config_names. x \<notin> {BATCH_SIZE, DATA_PATH, CACHE_DIR} \<longrightarrow>
       globals (configured X q w) x = globals (configured X' q w') x)"
proof -
  have "globals (configured X q w) x = globals (configured X' q w') x"
    if "x \<in> set config_names" and "x \<notin> {BATCH_SIZE, DATA_PATH, CACHE_DIR}" for x
    using that fixed_values [OF assms(1)] fixed_values [OF assms(2)]
    by (auto simp: config_names_def)
  with batch_size_rule [of X q w] assms(1) show ?thesis
    by blast
qed

theorem environment_dependence_witness:
  "exc (configured (sample_ext True None) False 0) = None \<and>
   exc (configured (sample_ext False None) False 5) = None \<and>
   globals (configured (sample_ext True None) False 0) BATCH_SIZE = Some (PyInt 16) \<and>
   globals (configured (sample_ext False None) False 5) BATCH_SIZE = Some (PyInt 8) \<and>
   globals (configured (sample_ext True None) False 0) MODEL_NAME =
     globals (configured (sample_ext False None) False 5) MODEL_NAME"
  using environment_dependence [of "sample_ext True None" False 0 "sample_ext False None" 5]
  by (simp add: sample_configured)

text \<open>
  C9 as stated fails: DATA_PATH is a configuration constant other than BATCH_SIZE, and two
  environments that differ in nothing but the temporary directories made before give it
  different values.
\<close>

theorem only_batch_size_counterexample:
  "DATA_PATH \<in> set config_names \<and> DATA_PATH \<noteq> BATCH_SIZE \<and>
   exc (configured (sample_ext False None) False 0) = None \<and>
   exc (configured (sample_ext False None) False 1) = None \<and>
   globals (configured (sample_ext False None) False 0) BATCH_SIZE =
     globals (configured (sample_ext False None) False 1) BATCH_SIZE \<and>
   globals (configured (sample_ext False None) False 0) DATA_PATH \<noteq>
     globals (configured (sample_ext False None) False 1) DATA_PATH"
  by (simp add: sample_configured config_names_def)

section \<open>Properties kept by every cell\<close>

lemma hoare_block:
  assumes "\<And>c. c \<in> set cs \<Longrightarrow> hoare I c I" and "I s"
  shows "I (block cs s)"
  using assms
proof (induction cs arbitrary: s)
  case Nil
  then show ?case by (simp add: block_Nil)
next
  case (Cons c cs)
  have "I (step c s)"
    using Cons.prems by (simp add: step_def hoare_def)
  then have "I (block cs (step c s))"
    using Cons.prems(1) by (intro Cons.IH) simp_all
  then show ?case by (simp add: block_def)
qed

section \<open>The order of the calls\<close>

lemma emitsI:
  assumes "\<And>s. exc s = None \<Longrightarrow>
    \<exists>evs. trace (c s) = trace s @ evs \<and> prefix (map callee evs) fs \<and>
      (exc (c s) = None \<longrightarrow> map callee evs = fs)"
  shows "emits fs c"
  using assms unfolding emits_def by (intro allI impI)

lemma emitsD:
  assumes "emits fs c" and "exc s = None"
  obtains evs where "trace (c s) = trace s @ evs" and "prefix (map callee evs) fs"
    and "exc (c s) = None \<Longrightarrow> map callee evs = fs"
proof -
  from assms have "\<exists>evs. trace (c s) = trace s @ evs \<and> prefix (map callee evs) fs \<and>
      (exc (c s) = None \<longrightarrow> map callee evs = fs)"
    by (simp add: emits_def)
  then show thesis
    using that by (elim exE conjE) simp
qed

lemma emits_block:
  assumes "list_all2 emits fss cs"
  shows "emits (concat fss) (block cs)"
  using assms
proof (induction rule: list_all2_induct)
  case Nil
  show ?case
    by (rule emitsI) (simp add: block_Nil)
next
  case (Cons fs fss c cs)
  show ?case
  proof (rule emitsI)
    fix s :: "'a state"
    assume s: "exc s = None"
    from emitsD [OF Cons.hyps(1) s] obtain evs where
      evs: "trace (c s) = trace s @ evs" "prefix (map callee evs) fs"
        "exc (c s) = None \<Longrightarrow> map callee evs = fs"
      by blast
    show "\<exists>evs. trace (block (c # cs) s) = trace s @ evs \<and>
      prefix (map callee evs) (concat (fs # fss)) \<and>
      (exc (block (c # cs) s) = None \<longrightarrow> map callee evs = concat (fs # fss))"
    proof (cases "exc (c s)")
      case None
      from emitsD [OF Cons.IH None] obtain evs' where
        evs': "trace (block cs (c s)) = trace (c s) @ evs'"
          "prefix (map callee evs') (concat fss)"
          "exc (block cs (c s)) = None \<Longrightarrow> map callee evs' = concat fss"
        by blast
      from s evs evs' None
      have "trace (block (c # cs) s) = trace s @ (evs @ evs') \<and>
        prefix (map callee (evs @ evs')) (concat (fs # fss)) \<and>
        (exc (block (c # cs) s) = None \<longrightarrow> map callee (evs @ evs') = concat (fs # fss))"
        by (simp add: block_Cons)
      then show ?thesis ..
    next
      case (Some e)
      with s evs
      have "trace (block (c # cs) s) = trace s @ evs \<and>
        prefix (map callee evs) (concat (fs # fss)) \<and>
        (exc (block (c # cs) s) = None \<longrightarrow> map callee evs = concat (fs # fss))"
        by (simp add: block_Cons block_raised [of _ e] prefix_prefix)
      then show ?thesis ..
    qed
  qed
qed

lemma emits_cells:
  "emits [load_dataset] (load_cell X)"
  "emits [TokenClassifier, fit, print] (train_cell X)"
  "emits [predict, print] (predict_cell X)"
  "emits [get_true_test_labels] (true_labels_cell X)"
  "emits [get_predicted_token_labels, classification_report, print] (report_cell X)"
  "emits [glue, glue, glue] (metrics_cell X)"
  by (simp_all add: emits_def cell_defs exec del: eval_args.simps
      split: sum.split prod.split list.split)

lemma emits_later_cells:
  "emits [load_dataset, TokenClassifier, fit, print, predict, print, get_true_test_labels,
     get_predicted_token_labels, classification_report, print, glue, glue, glue]
     (block (later_cells X))"
  using emits_block [of
      "[[load_dataset], [TokenClassifier, fit, print], [predict, print], [get_true_test_labels],
        [get_predicted_token_labels, classification_report, print], [glue, glue, glue]]"
      "later_cells X"]
  by (simp add: later_cells_def emits_cells)

lemma configured_calls:
  "prefix (map callee (trace (configured X q w)))
     [TemporaryDirectory, TemporaryDirectory, manual_seed, cuda_is_available] \<and>
   (exc (configured X q w) = None \<longrightarrow>
      map callee (trace (configured X q w)) =
        [TemporaryDirectory, TemporaryDirectory, manual_seed, cuda_is_available])"
  unfolding configured_start
  by (simp add: configuration_cell_split [of _ q, simplified] exec split: sum.split prod.split)

lemma run_calls:
  "prefix (map callee (trace (run_notebook X q w))) program_order \<and>
   (exc (run_notebook X q w) = None \<longrightarrow> map callee (trace (run_notebook X q w)) = program_order)"
proof (cases "exc (configured X q w)")
  case (Some e)
  then have "run_notebook X q w = configured X q w"
    by (simp add: run_notebook_configured block_raised)
  have "prefix [TemporaryDirectory, TemporaryDirectory, manual_seed, cuda_is_available]
      program_order"
    by (simp add: program_order_def)
  with configured_calls [of X q w]
  have "prefix (map callee (trace (configured X q w))) program_order"
    using prefix_order.trans by blast
  with Some \<open>run_notebook X q w = configured X q w\<close> show ?thesis
    by simp
next
  case None
  with configured_calls [of X q w]
  have c: "map callee (trace (configured X q w)) =
      [TemporaryDirectory, TemporaryDirectory, manual_seed, cuda_is_available]"
    by simp
  from emitsD [OF emits_later_cells None, of X] obtain evs where
    evs: "trace (run_notebook X q w) = trace (configured X q w) @ evs"
      "prefix (map callee evs)
         [load_dataset, TokenClassifier, fit, print, predict, print, get_true_test_labels,
          get_predicted_token_labels, classification_report, print, glue, glue, glue]"
      "exc (run_notebook X q w) = None \<Longrightarrow> map callee evs =
         [load_dataset, TokenClassifier, fit, print, predict, print, get_true_test_labels,
          get_predicted_token_labels, classification_report, print, glue, glue, glue]"
    unfolding run_notebook_configured by blast
  from c evs show ?thesis
    by (simp add: program_order_def)
qed

lemma prefix_filter:
  assumes "prefix xs ys"
  shows "prefix (filter P xs) (filter P ys)"
  using assms by (auto simp: prefix_def)

text \<open>
  C6. The calls of any run are an initial part of the program order, and all of it when
  the run completes: the dataset is loaded before the classifier is constructed, then come
  fit, predict, the report and the recording of its three metrics; a call is never made
  twice, never out of turn, and never left out before a later one.
\<close>

theorem orchestration_in_order:
  "prefix (map callee (trace (run_notebook X q w))) program_order \<and>
   prefix (filter orchestration (map callee (trace (run_notebook X q w)))) orchestration_order \<and>
   (exc (run_notebook X q w) = None \<longrightarrow>
      map callee (trace (run_notebook X q w)) = program_order \<and>
      filter orchestration (map callee (trace (run_notebook X q w))) = orchestration_order)"
proof -
  have o: "filter orchestration program_order = orchestration_order"
    by (simp add: program_order_def orchestration_order_def orchestration_def)
  from run_calls [of X q w] prefix_filter [of _ program_order orchestration] o
  show ?thesis
    by auto
qed

section \<open>Exceptions\<close>

lemma halts_append: "halts evs None \<Longrightarrow> halts (evs @ evs') x = halts evs' x"
  by (induction evs) (auto split: sum.splits)

lemma halts_pending: "halts evs None \<Longrightarrow> halts evs (Some e)"
  using halts_append [of evs "[]" "Some e"] by simp

lemma halts_raise:
  assumes "halts (pre @ ev # post) x" and "ret ev = Inl e"
  shows "post = [] \<and> x = Some e"
  using assms by (induction pre) (auto split: sum.splits)

lemma hoare_halted:
  assumes "\<And>s. exc s = None \<Longrightarrow> halts (trace s) None \<Longrightarrow> halts (trace (c s)) (exc (c s))"
  shows "hoare halted_at_raise c halted_at_raise"
  using assms by (simp add: hoare_def halted_at_raise_def)

lemma halted_cells:
  assumes "c \<in> set (later_cells X)"
  shows "hoare halted_at_raise c halted_at_raise"
proof -
  from assms consider "c = load_cell X" | "c = train_cell X" | "c = predict_cell X"
    | "c = true_labels_cell X" | "c = report_cell X" | "c = metrics_cell X"
    by (auto simp: later_cells_def)
  then show ?thesis
    by cases
      (simp_all add: hoare_halted cell_defs exec halts_append halts_pending
        del: eval_args.simps split: sum.split prod.split list.split)
qed

lemma halted_configured: "halted_at_raise (configured X q w)"
  unfolding configured_start halted_at_raise_def
  by (simp add: configuration_cell_split [of _ q, simplified] exec split: sum.split prod.split)

text \<open>
  C7. When a call to the outside raises, the run stops there: the call is the last call of
  the run, and the exception it raised, unchanged, is what the run ends with. No cell
  handles, retries or translates it.
\<close>

theorem exceptions_halt:
  assumes "trace (run_notebook X q w) = pre @ ev # post" and "ret ev = Inl e"
  shows "post = [] \<and> exc (run_notebook X q w) = Some e"
proof -
  have "halted_at_raise (run_notebook X q w)"
    unfolding run_notebook_configured
    by (rule hoare_block [where I = halted_at_raise]) (simp_all add: halted_cells halted_configured)
  with assms show ?thesis
    by (simp add: halted_at_raise_def halts_raise)
qed

section \<open>The device arguments\<close>





section \<open>The label mapping\<close>

lemma map_free_uses:
  assumes "map_free s"
  shows "list_all (uses_map lmo) (trace s)"
  using assms unfolding map_free_def list_all_iff
  by (auto simp: uses_map_def map_call_def)

lemma map_free_threaded: "map_free s \<Longrightarrow> threaded s"
  by (simp add: threaded_def map_free_uses)

lemma map_free_configured: "map_free (configured X q w)"
proof -
  have "\<not> map_call f"
    if "f \<in> set [TemporaryDirectory, TemporaryDirectory, manual_seed, cuda_is_available]" for f
    using that by (auto simp: map_call_def)
  moreover have "set (map callee (trace (configured X q w)))
      \<subseteq> set [TemporaryDirectory, TemporaryDirectory, manual_seed, cuda_is_available]"
    using configured_calls [of X q w] set_mono_prefix by blast
  ultimately show ?thesis
    unfolding map_free_def list_all_iff by auto
qed

lemma load_cell_threads:
  assumes "exc s = None" and "map_free s"
  shows "threaded (load_cell X s)"
proof -
  note old = map_free_uses [OF assms(2)]
  from assms(1) show ?thesis
    by (simp add: threaded_def load_cell_def exec old del: eval_args.simps
        split: sum.split prod.split list.split)
      (auto simp add: uses_map_def simp del: eval_args.simps)
qed

lemma threaded_cells:
  assumes "c \<in> set [train_cell X, predict_cell X, true_labels_cell X, report_cell X,
    metrics_cell X]"
  shows "hoare threaded c threaded"
proof -
  from assms consider "c = train_cell X" | "c = predict_cell X"
    | "c = true_labels_cell X" | "c = report_cell X" | "c = metrics_cell X"
    by auto
  then show ?thesis
    by cases
      (simp_all add: hoare_def threaded_def cell_defs exec uses_map_def
        split: sum.split prod.split option.split)
qed

lemma label_map_kept:
  assumes "c \<in> set [train_cell X, predict_cell X, true_labels_cell X, report_cell X,
    metrics_cell X]"
  shows "globals (c s) label_map = globals s label_map"
proof (cases "exc s")
  case (Some e)
  with assms show ?thesis
    by (auto simp: cell_defs block_raised)
next
  case None
  from assms consider "c = train_cell X" | "c = predict_cell X"
    | "c = true_labels_cell X" | "c = report_cell X" | "c = metrics_cell X"
    by auto
  then show ?thesis
    using None
    by cases
      (simp_all add: cell_defs exec del: eval_args.simps split: sum.split prod.split)
qed

lemma run_threaded: "threaded (run_notebook X q w)"
proof (cases "exc (configured X q w)")
  case (Some e)
  then have "run_notebook X q w = configured X q w"
    by (simp add: run_notebook_configured block_raised)
  then show ?thesis
    by (simp add: map_free_threaded map_free_configured)
next
  case None
  let ?rest = "[train_cell X, predict_cell X, true_labels_cell X, report_cell X, metrics_cell X]"
  have "run_notebook X q w = block ?rest (load_cell X (configured X q w))"
    using None by (simp add: run_notebook_configured later_cells_def block_Cons)
  moreover have "threaded (block ?rest (load_cell X (configured X q w)))"
    by (rule hoare_block [where I = threaded])
      (simp_all only: threaded_cells load_cell_threads [OF None map_free_configured])
  ultimately show ?thesis
    by simp
qed

text \<open>
  C4. The label mapping that \<open>load_dataset\<close> returned is the one every consumer gets: the
  classifier is constructed with its length as \<open>num_labels\<close>, and \<open>get_true_test_labels\<close>
  and \<open>get_predicted_token_labels\<close> receive it as \<open>label_map\<close>. It stays bound to
  \<open>label_map\<close> to the end of the run, and no cell after the loading binds that name.
\<close>

theorem label_map_threaded:
  assumes "ev \<in> set (trace (run_notebook X q w))" and "callee ev = load_dataset"
    and "ret ev = Inr v" and "py_iter v = Inr [a, b, lm, d]"
  shows "globals (run_notebook X q w) label_map = Some lm \<and>
    (\<forall>ev' \<in> set (trace (run_notebook X q w)).
       (callee ev' = TokenClassifier \<longrightarrow>
          (\<exists>n. py_len lm = Inr n \<and> Kw ''num_labels'' n \<in> set (args ev'))) \<and>
       (callee ev' = get_true_test_labels \<or> callee ev' = get_predicted_token_labels \<longrightarrow>
          Kw ''label_map'' lm \<in> set (args ev'))) \<and>
    (\<forall>c \<in> set [train_cell X, predict_cell X, true_labels_cell X, report_cell X, metrics_cell X].
       \<forall>s. globals (c s) label_map = globals s label_map)"
proof -
  have all: "\<forall>e \<in> set (trace (run_notebook X q w)).
      uses_map (globals (run_notebook X q w) label_map) e"
    using run_threaded [of X q w] by (simp add: threaded_def list_all_iff)
  with assms have lm: "globals (run_notebook X q w) label_map = Some lm"
    by (auto simp: uses_map_def)
  have "(callee ev' = TokenClassifier \<longrightarrow>
          (\<exists>n. py_len lm = Inr n \<and> Kw ''num_labels'' n \<in> set (args ev'))) \<and>
       (callee ev' = get_true_test_labels \<or> callee ev' = get_predicted_token_labels \<longrightarrow>
          Kw ''label_map'' lm \<in> set (args ev'))"
    if "ev' \<in> set (trace (run_notebook X q w))" for ev'
    using all that lm by (auto simp: uses_map_def)
  with lm label_map_kept [of _ X] show ?thesis
    by blast
qed

section \<open>The example runs\<close>

text \<open>The run of the notebook as shipped, with a GPU, in the example environment.\<close>

lemma sample_run:
  "run_notebook (sample_ext True None) False 0 =
    \<lparr>globals =
       [QUICK_RUN \<mapsto> PyBool False,
        TEST_DATA_FRACTION \<mapsto> PyFloat (Finite (3 / 10)),
        TRAIN_SAMPLE_RATIO \<mapsto> PyInt 1,
        TEST_SAMPLE_RATIO \<mapsto> PyInt 1,
        NUM_TRAIN_EPOCHS \<mapsto> PyInt 5,
        DATA_PATH \<mapsto> PyStr ''/tmp/tmpx'',
        CACHE_DIR \<mapsto> PyStr ''/tmp/tmpxx'',
        RANDOM_SEED \<mapsto> PyInt 100,
        MODEL_NAME \<mapsto> PyStr ''bert-base-cased'',
        DO_LOWER_CASE \<mapsto> PyBool False,
        MAX_SEQ_LENGTH \<mapsto> PyInt 200,
        TRAILING_PIECE_TAG \<mapsto> PyStr ''X'',
        DEVICE \<mapsto> PyStr ''cuda'',
        BATCH_SIZE \<mapsto> PyInt 16,
        train_dataloader \<mapsto> PyObj ''DataLoader'',
        test_dataloader \<mapsto> PyObj ''DataLoader'',
        label_map \<mapsto> PyDict [(''O'', PyInt 0), (''I-PER'', PyInt 1), (''X'', PyInt 2)],
        test_dataset \<mapsto> PyObj ''TensorDataset'',
        model \<mapsto> PyObj ''TokenClassifier'',
        t \<mapsto> PyObj ''Timer'',
        preds \<mapsto> PyObj ''ndarray'',
        true_labels \<mapsto> PyList [PyList [PyStr ''I-PER'', PyStr ''O'']],
        predicted_labels \<mapsto> PyList [PyList [PyStr ''I-PER'', PyStr ''O'']],
        report \<mapsto> PyStr sample_report,
        report_splits \<mapsto>
          PyList [PyStr ''macro'', PyStr ''avg'', PyStr ''0.91'', PyStr ''0.95'', PyStr ''0.93'',
                  PyStr ''102'']],
     trace =
       [\<lparr>callee = TemporaryDirectory, args = [], ret = Inr (PyStr ''/tmp/tmpx'')\<rparr>,
        \<lparr>callee = TemporaryDirectory, args = [], ret = Inr (PyStr ''/tmp/tmpxx'')\<rparr>,
        \<lparr>callee = manual_seed, args = [Pos (PyInt 100)], ret = Inr (PyObj ''Generator'')\<rparr>,
        \<lparr>callee = cuda_is_available, args = [], ret = Inr (PyBool True)\<rparr>,
        \<lparr>callee = load_dataset,
          args =
            [Kw ''local_path'' (PyStr ''/tmp/tmpx''),
             Kw ''test_fraction'' (PyFloat (Finite (3 / 10))),
             Kw ''random_seed'' (PyInt 100),
             Kw ''train_sample_ratio'' (PyInt 1),
             Kw ''test_sample_ratio'' (PyInt 1),
             Kw ''model_name'' (PyStr ''bert-base-cased''),
             Kw ''to_lower'' (PyBool False),
             Kw ''cache_dir'' (PyStr ''/tmp/tmpxx''),
             Kw ''max_len'' (PyInt 200),
             Kw ''trailing_piece_tag'' (PyStr ''X''),
             Kw ''batch_size'' (PyInt 16),
             Kw ''num_gpus'' PyNone],
          ret = Inr (PyTuple
            [PyObj ''DataLoader'', PyObj ''DataLoader'',
             PyDict [(''O'', PyInt 0), (''I-PER'', PyInt 1), (''X'', PyInt 2)],
             PyObj ''TensorDataset''])\<rparr>,
        \<lparr>callee = TokenClassifier,
          args =
            [Kw ''model_name'' (PyStr ''bert-base-cased''),
             Kw ''num_labels'' (PyInt 3),
             Kw ''cache_dir'' (PyStr ''/tmp/tmpxx'')],
          ret = Inr (PyObj ''TokenClassifier'')\<rparr>,
        \<lparr>callee = fit,
          args =
            [Recv (PyObj ''TokenClassifier''),
             Kw ''train_dataloader'' (PyObj ''DataLoader''),
             Kw ''num_epochs'' (PyInt 5),
             Kw ''num_gpus'' PyNone,
             Kw ''local_rank'' (PyInt (- 1)),
             Kw ''weight_decay'' (PyFloat (Finite 0)),
             Kw ''learning_rate'' (PyFloat (Finite (5 / 100000))),
             Kw ''adam_epsilon'' (PyFloat (Finite (1 / 100000000))),
             Kw ''warmup_steps'' (PyInt 0),
             Kw ''verbose'' (PyBool True),
             Kw ''seed'' (PyInt 100)],
          ret = Inr PyNone\<rparr>,
        \<lparr>callee = print,
          args = [Pos (PyStr ''Training time : {:.3f} hrs''), Pos (PyFloat (Finite (420 / 3600)))],
          ret = Inr PyNone\<rparr>,
        \<lparr>callee = predict,
          args =
            [Recv (PyObj ''TokenClassifier''),
             Kw ''test_dataloader'' (PyObj ''DataLoader''),
             Kw ''num_gpus'' PyNone,
             Kw ''verbose'' (PyBool True)],
          ret = Inr (PyObj ''ndarray'')\<rparr>,
        \<lparr>callee = print,
          args =
            [Pos (PyStr ''Prediction time : {:.3f} hrs''), Pos (PyFloat (Finite (420 / 3600)))],
          ret = Inr PyNone\<rparr>,
        \<lparr>callee = get_true_test_labels,
          args =
            [Recv (PyObj ''TokenClassifier''),
             Kw ''label_map'' (PyDict [(''O'', PyInt 0), (''I-PER'', PyInt 1), (''X'', PyInt 2)]),
             Kw ''dataset'' (PyObj ''TensorDataset'')],
          ret = Inr (PyList [PyList [PyStr ''I-PER'', PyStr ''O'']])\<rparr>,
        \<lparr>callee = get_predicted_token_labels,
          args =
            [Recv (PyObj ''TokenClassifier''),
             Kw ''predictions'' (PyObj ''ndarray''),
             Kw ''label_map'' (PyDict [(''O'', PyInt 0), (''I-PER'', PyInt 1), (''X'', PyInt 2)]),
             Kw ''dataset'' (PyObj ''TensorDataset'')],
          ret = Inr (PyList [PyList [PyStr ''I-PER'', PyStr ''O'']])\<rparr>,
        \<lparr>callee = classification_report,
          args =
            [Pos (PyList [PyList [PyStr ''I-PER'', PyStr ''O'']]),
             Pos (PyList [PyList [PyStr ''I-PER'', PyStr ''O'']]),
             Kw ''digits'' (PyInt 2)],
          ret = Inr (PyStr sample_report)\<rparr>,
        \<lparr>callee = print, args = [Pos (PyStr sample_report)], ret = Inr PyNone\<rparr>,
        glued ''precision'' (Finite (91 / 100)),
        glued ''recall'' (Finite (95 / 100)),
        glued ''f1'' (Finite (93 / 100))],
     world = 2, exc = None\<rparr>"
  unfolding run_notebook_configured sample_configured
  by (simp add: later_cells_def cell_defs exec sample_ext_def seq_index_def glued_def
      sample_report_def newline_def split_ws_def py_isspace_def decimal_float_def digit_of_def)

text \<open>The same run in an environment where \<open>fit\<close> raises.\<close>

lemma failing_run:
  "trace (run_notebook (sample_ext True (Some fit)) False 0) =
     take 6 (trace (run_notebook (sample_ext True None) False 0)) @
     [(trace (run_notebook (sample_ext True None) False 0) ! 6)
        \<lparr>ret := Inl (ExternalError ''out of memory'')\<rparr>]"
  "exc (run_notebook (sample_ext True (Some fit)) False 0) = Some (ExternalError ''out of memory'')"
  unfolding sample_run
  unfolding run_notebook_configured
  by (simp_all add: configured_start configuration_cell_def later_cells_def cell_defs exec
      sample_ext_def)

theorem orchestration_in_order_witness:
  "exc (run_notebook (sample_ext True None) False 0) = None \<and>
   map callee (trace (run_notebook (sample_ext True None) False 0)) = program_order \<and>
   filter orchestration (map callee (trace (run_notebook (sample_ext True None) False 0))) =
     orchestration_order \<and>
   prefix (map callee (trace (run_notebook (sample_ext True (Some fit)) False 0))) program_order"
  using orchestration_in_order [of "sample_ext True None" False 0]
    orchestration_in_order [of "sample_ext True (Some fit)" False 0]
  by (simp add: sample_run glued_def program_order_def orchestration_order_def
      orchestration_def)

theorem exceptions_halt_witness:
  "callee (last (trace (run_notebook (sample_ext True (Some fit)) False 0))) = fit \<and>
   ret (last (trace (run_notebook (sample_ext True (Some fit)) False 0))) =
     Inl (ExternalError ''out of memory'') \<and>
   length (trace (run_notebook (sample_ext True (Some fit)) False 0)) = 7 \<and>
   exc (run_notebook (sample_ext True (Some fit)) False 0) = Some (ExternalError ''out of memory'')"
  using exceptions_halt [of "sample_ext True (Some fit)" False 0
      "butlast (trace (run_notebook (sample_ext True (Some fit)) False 0))"
      "last (trace (run_notebook (sample_ext True (Some fit)) False 0))" "[]"
      "ExternalError ''out of memory''"]
  by (simp add: failing_run(1) sample_run glued_def)



theorem label_map_threaded_witness:
  "callee (trace (run_notebook (sample_ext True None) False 0) ! 4) = load_dataset \<and>
   globals (run_notebook (sample_ext True None) False 0) label_map =
     Some (PyDict [(''O'', PyInt 0), (''I-PER'', PyInt 1), (''X'', PyInt 2)]) \<and>
   callee (trace (run_notebook (sample_ext True None) False 0) ! 5) = TokenClassifier \<and>
   Kw ''num_labels'' (PyInt 3)
     \<in> set (args (trace (run_notebook (sample_ext True None) False 0) ! 5)) \<and>
   callee (trace (run_notebook (sample_ext True None) False 0) ! 10) = get_true_test_labels \<and>
   Kw ''label_map'' (PyDict [(''O'', PyInt 0), (''I-PER'', PyInt 1), (''X'', PyInt 2)])
     \<in> set (args (trace (run_notebook (sample_ext True None) False 0) ! 10)) \<and>
   callee (trace (run_notebook (sample_ext True None) False 0) ! 11) =
     get_predicted_token_labels \<and>
   Kw ''label_map'' (PyDict [(''O'', PyInt 0), (''I-PER'', PyInt 1), (''X'', PyInt 2)])
     \<in> set (args (trace (run_notebook (sample_ext True None) False 0) ! 11))"
  using label_map_threaded [of "trace (run_notebook (sample_ext True None) False 0) ! 4"
      "sample_ext True None" False 0
      "PyTuple [PyObj ''DataLoader'', PyObj ''DataLoader'',
         PyDict [(''O'', PyInt 0), (''I-PER'', PyInt 1), (''X'', PyInt 2)],
         PyObj ''TensorDataset'']"
      "PyObj ''DataLoader''" "PyObj ''DataLoader''"
      "PyDict [(''O'', PyInt 0), (''I-PER'', PyInt 1), (''X'', PyInt 2)]"
      "PyObj ''TensorDataset''"]
  by (simp add: sample_run glued_def)

end
